theory Spec2Isabelle
  imports Complex_Main "HOL-Library.Multiset" "HOL-Library.Sublist" "HOL-Library.Char_ord"
    "HOL-Library.List_Lexorder" "HOL-Library.Log_Nat" "HOL-Library.Word"
begin

section \<open>Data model\<close>

text \<open>
  One row of the dataset, under the canonical column names that \<open>load_data\<close> produces
  (app.py, lines 21 to 36). The two columns the dashboard treats as nullable
  (\<open>Item_Weight\<close> and \<open>Outlet_Size\<close>, lines 133 and 170) are options, \<open>None\<close> being the
  null cell. A float cell is the rational its double denotes. The establishment year is
  an \<open>int64\<close> column, a 64-bit word read as a signed number (\<open>sint\<close>): arithmetic on it
  wraps around silently, as the column's does. The missing-values percentage and the
  rounding to two decimals are computed in double precision (\<open>nearest_double\<close> below);
  sums and means of sales are taken over the rationals, their summation order and
  rounding not being modelled.
\<close>

record row =
  Item_Identifier :: string
  Item_Weight :: "rat option"
  Item_Fat_Content :: string
  Item_Visibility :: rat
  Item_Type :: string
  Item_MRP :: rat
  Outlet_Identifier :: string
  Outlet_Establishment_Year :: "64 word"
  Outlet_Size :: "string option"
  Outlet_Location_Type :: string
  Outlet_Type :: string
  Item_Outlet_Sales :: rat

text \<open>A data frame is the ordered sequence of its rows.\<close>

type_synonym frame = "row list"

text \<open>The three sidebar select boxes (lines 51, 59, 67); each holds a category value or \<open>''All''\<close>.\<close>

record selection =
  selected_product_type :: string
  selected_city_tier :: string
  selected_store_category :: string

section \<open>Filtering (lines 74 to 85)\<close>

text \<open>\<open>frame[frame[col] == v]\<close>: boolean-mask indexing keeps the rows whose cell equals \<open>v\<close>.\<close>

definition select_eq :: "(row \<Rightarrow> string) \<Rightarrow> string \<Rightarrow> frame \<Rightarrow> frame" where
  "select_eq col v f = filter (\<lambda>r. col r = v) f"

text \<open>The three \<open>if\<close> statements of lines 76 to 83, one function each.\<close>

definition filter_product_type :: "string \<Rightarrow> frame \<Rightarrow> frame" where
  "filter_product_type v f = (if v \<noteq> ''All'' then select_eq Item_Type v f else f)"

definition filter_city_tier :: "string \<Rightarrow> frame \<Rightarrow> frame" where
  "filter_city_tier v f = (if v \<noteq> ''All'' then select_eq Outlet_Location_Type v f else f)"

definition filter_store_category :: "string \<Rightarrow> frame \<Rightarrow> frame" where
  "filter_store_category v f = (if v \<noteq> ''All'' then select_eq Outlet_Type v f else f)"

text \<open>
  \<open>filtered_df\<close> starts as a copy of the dataset and passes through the three statements
  in the order of the script; \<open>data\<close> (line 85) is another name for the result.
\<close>

definition filtered_df :: "frame \<Rightarrow> selection \<Rightarrow> frame" where
  "filtered_df df sel =
     filter_store_category (selected_store_category sel)
       (filter_city_tier (selected_city_tier sel)
         (filter_product_type (selected_product_type sel) df))"

text \<open>
  The same three statements addressed by the field they test, so that they can be run in
  any order: a predicate is a field together with the selected value.
\<close>

datatype filter_field = ProductType | CityTier | StoreCategory

fun apply_predicate :: "filter_field \<times> string \<Rightarrow> frame \<Rightarrow> frame" where
  "apply_predicate (ProductType, v) f = filter_product_type v f"
| "apply_predicate (CityTier, v) f = filter_city_tier v f"
| "apply_predicate (StoreCategory, v) f = filter_store_category v f"

definition predicates :: "selection \<Rightarrow> (filter_field \<times> string) list" where
  "predicates sel =
     [(ProductType, selected_product_type sel),
      (CityTier, selected_city_tier sel),
      (StoreCategory, selected_store_category sel)]"

definition apply_predicates :: "(filter_field \<times> string) list \<Rightarrow> frame \<Rightarrow> frame" where
  "apply_predicates ps df = fold apply_predicate ps df"

text \<open>What a row has to satisfy under a selection: every select box is \<open>''All''\<close> or equals the row's cell.\<close>

definition matches :: "selection \<Rightarrow> row \<Rightarrow> bool" where
  "matches sel r \<longleftrightarrow>
     (selected_product_type sel \<noteq> ''All'' \<longrightarrow> Item_Type r = selected_product_type sel) \<and>
     (selected_city_tier sel \<noteq> ''All'' \<longrightarrow> Outlet_Location_Type r = selected_city_tier sel) \<and>
     (selected_store_category sel \<noteq> ''All'' \<longrightarrow> Outlet_Type r = selected_store_category sel)"

section \<open>Series reductions\<close>

text \<open>
  The result of a pandas reduction that has no value on an empty series: \<open>max\<close>, \<open>min\<close>
  and \<open>mean\<close> of no cells are \<open>NaN\<close>, while \<open>sum\<close> of no cells is 0 and \<open>len\<close> is 0.
\<close>

datatype 'a scalar = Val 'a | NaN

fun series_max :: "'a::linorder list \<Rightarrow> 'a scalar" where
  "series_max [] = NaN"
| "series_max (x # xs) = Val (fold max xs x)"

fun series_min :: "'a::linorder list \<Rightarrow> 'a scalar" where
  "series_min [] = NaN"
| "series_min (x # xs) = Val (fold min xs x)"

definition series_sum :: "rat list \<Rightarrow> rat" where
  "series_sum xs = sum_list xs"

definition series_mean :: "rat list \<Rightarrow> rat scalar" where
  "series_mean xs = (if xs = [] then NaN else Val (sum_list xs / of_nat (length xs)))"

definition nunique :: "'a list \<Rightarrow> nat" where
  "nunique xs = length (remdups xs)"

text \<open>\<open>series.isnull().sum()\<close>: the number of null cells.\<close>

definition isnull_sum :: "'a option list \<Rightarrow> nat" where
  "isnull_sum xs = length (filter (\<lambda>c. c = None) xs)"

section \<open>Double precision\<close>

text \<open>\<open>rint\<close>: the nearest integer, a tie going to the even neighbour.\<close>

definition round_half_even :: "rat \<Rightarrow> int" where
  "round_half_even y =
     (let f = \<lfloor>y\<rfloor>; d = y - of_int f
      in if d < 1 / 2 then f else if 1 / 2 < d then f + 1 else if even f then f else f + 1)"

text \<open>The exponent \<open>k\<close> of a positive number: \<open>2 ^ k \<le> x < 2 ^ (k + 1)\<close>.\<close>

definition binade :: "rat \<Rightarrow> int" where
  "binade x = (if 1 \<le> x then bitlen \<lfloor>x\<rfloor> - 1 else - bitlen (\<lceil>1 / x\<rceil> - 1))"

text \<open>
  The result of an IEEE 754 binary64 operation is the exact result rounded to the
  nearest number with a 53-bit significand, a tie going to the even significand. The
  exponent range is not modelled: the numbers rounded below are 0 or lie between
  \<open>2 ^ -64\<close> and \<open>2 ^ 63\<close> for every frame of fewer than \<open>2 ^ 63\<close> rows, the most a
  Python sequence can hold, and there every double is normal.
\<close>

definition nearest_double :: "rat \<Rightarrow> rat" where
  "nearest_double x =
     (if x = 0 then 0
      else let u = 2 powi (binade \<bar>x\<bar> - 52)
           in sgn x * of_int (round_half_even (\<bar>x\<bar> / u)) * u)"

text \<open>
  \<open>round(x, 2)\<close> on a numpy double, and \<open>.round(2)\<close> on a float column: multiply by
  \<open>100.0\<close>, take \<open>rint\<close>, divide by \<open>100.0\<close>, each step in double precision.
\<close>

definition round2 :: "rat \<Rightarrow> rat" where
  "round2 x = nearest_double (of_int (round_half_even (nearest_double (x * 100))) / 100)"

section \<open>Grouping\<close>

text \<open>
  \<open>frame.groupby(key)\<close> with the default \<open>sort=True\<close>: one group per distinct key, the
  keys ascending, each group holding its rows in frame order.
\<close>

definition groupby :: "('r \<Rightarrow> 'k::linorder) \<Rightarrow> 'r list \<Rightarrow> ('k \<times> 'r list) list" where
  "groupby key f = map (\<lambda>k. (k, filter (\<lambda>r. key r = k) f)) (sort (remdups (map key f)))"

text \<open>\<open>.groupby(key)[val].sum().reset_index()\<close> and the same with \<open>.mean()\<close>.\<close>

definition groupby_sum :: "('r \<Rightarrow> 'k::linorder) \<Rightarrow> ('r \<Rightarrow> rat) \<Rightarrow> 'r list \<Rightarrow> ('k \<times> rat) list" where
  "groupby_sum key val f = map (\<lambda>(k, g). (k, series_sum (map val g))) (groupby key f)"

definition groupby_mean :: "('r \<Rightarrow> 'k::linorder) \<Rightarrow> ('r \<Rightarrow> rat) \<Rightarrow> 'r list \<Rightarrow> ('k \<times> rat scalar) list" where
  "groupby_mean key val f = map (\<lambda>(k, g). (k, series_mean (map val g))) (groupby key f)"

text \<open>The cells of a nullable column that are not null.\<close>

definition dropna :: "'a option list \<Rightarrow> 'a list" where
  "dropna xs = concat (map (\<lambda>c. case c of None \<Rightarrow> [] | Some v \<Rightarrow> [v]) xs)"

text \<open>
  \<open>series.value_counts()\<close>: the count of each distinct value, the largest count first.
  Values with equal counts are kept in order of first appearance (pandas leaves their
  order open; nothing below depends on it). Null cells are dropped by the caller
  through \<open>dropna\<close>, as \<open>value_counts\<close> does by default.
\<close>

definition value_counts :: "'a list \<Rightarrow> ('a \<times> nat) list" where
  "value_counts xs =
     sort_key (\<lambda>p. - int (snd p)) (map (\<lambda>v. (v, count_list xs v)) (rev (remdups (rev xs))))"

text \<open>\<open>.sort_values(col, ascending=False)\<close> on the value column of a grouped result.\<close>

definition sort_values_desc :: "('k \<times> rat) list \<Rightarrow> ('k \<times> rat) list" where
  "sort_values_desc g = sort_key (\<lambda>p. - snd p) g"

section \<open>Key metrics (lines 92 to 127)\<close>

text \<open>What a metric tile shows: a computed value, or the text "No data".\<close>

datatype 'a metric = Metric 'a | No_data

definition total_observations :: "frame \<Rightarrow> nat" where
  "total_observations data = length data"

definition product_types_count :: "frame \<Rightarrow> nat" where
  "product_types_count data = nunique (map Item_Type data)"

definition highest_mrp :: "frame \<Rightarrow> rat scalar metric" where
  "highest_mrp data =
     (if length data > 0 then Metric (series_max (map Item_MRP data)) else No_data)"

definition establishment_years :: "frame \<Rightarrow> (int scalar \<times> int scalar) metric" where
  "establishment_years data =
     (if length data > 0
      then Metric (series_min (map (\<lambda>r. sint (Outlet_Establishment_Year r)) data),
                   series_max (map (\<lambda>r. sint (Outlet_Establishment_Year r)) data))
      else No_data)"

definition avg_store_sales :: "frame \<Rightarrow> rat scalar metric" where
  "avg_store_sales data =
     (if length data > 0 then Metric (series_mean (map Item_Outlet_Sales data)) else No_data)"

definition total_store_sales :: "frame \<Rightarrow> rat metric" where
  "total_store_sales data =
     (if length data > 0 then Metric (series_sum (map Item_Outlet_Sales data)) else No_data)"

definition avg_mrp :: "frame \<Rightarrow> rat scalar metric" where
  "avg_mrp data =
     (if length data > 0 then Metric (series_mean (map Item_MRP data)) else No_data)"

section \<open>Missing values analysis (lines 132 to 140)\<close>

definition missing_count :: "(row \<Rightarrow> 'a option) \<Rightarrow> frame \<Rightarrow> nat" where
  "missing_count col data = isnull_sum (map col data)"

text \<open>
  Line 135. The count is a numpy \<open>int64\<close>, so the division converts both operands to
  doubles and divides them, and the product with 100 is a double again.
\<close>

definition missing_percentage :: "(row \<Rightarrow> 'a option) \<Rightarrow> frame \<Rightarrow> rat" where
  "missing_percentage col data =
     (if length data > 0
      then nearest_double
             (nearest_double
                (nearest_double (of_nat (missing_count col data)) /
                 nearest_double (of_nat (length data))) * 100)
      else 0)"

record missing_entry =
  Column :: string
  Missing_Values :: nat
  Percentage :: rat

definition missing_row :: "string \<Rightarrow> (row \<Rightarrow> 'a option) \<Rightarrow> frame \<Rightarrow> missing_entry" where
  "missing_row name col data =
     \<lparr>Column = name, Missing_Values = missing_count col data,
      Percentage = round2 (missing_percentage col data)\<rparr>"

definition missing_data :: "frame \<Rightarrow> missing_entry list" where
  "missing_data data =
     [missing_row ''Item_Weight'' Item_Weight data, missing_row ''Outlet_Size'' Outlet_Size data]"


section \<open>Visualisations (lines 148 to 311)\<close>

text \<open>What a chart slot shows: a chart of the computed table, or the "no data" note.\<close>

datatype 'a chart = Chart 'a | Info

definition chart_of :: "'a list \<Rightarrow> 'a list chart" where
  "chart_of t = (if length t > 0 then Chart t else Info)"

text \<open>Store size distribution, lines 169 to 171.\<close>

definition fillna :: "'a \<Rightarrow> 'a option \<Rightarrow> 'a option" where
  "fillna v c = (case c of None \<Rightarrow> Some v | Some x \<Rightarrow> Some x)"

definition fill_outlet_size :: "frame \<Rightarrow> frame" where
  "fill_outlet_size f = map (\<lambda>r. r\<lparr>Outlet_Size := fillna ''Unknown'' (Outlet_Size r)\<rparr>) f"

definition size_counts :: "frame \<Rightarrow> (string \<times> nat) list" where
  "size_counts data = value_counts (dropna (map Outlet_Size (fill_outlet_size data)))"

text \<open>City tier distribution, line 184, and average sales by store category, line 200.\<close>

definition tier_counts :: "frame \<Rightarrow> (string \<times> nat) list" where
  "tier_counts data = value_counts (map Outlet_Location_Type data)"

definition avg_sales_by_type :: "frame \<Rightarrow> (string \<times> rat scalar) list" where
  "avg_sales_by_type data = groupby_mean Outlet_Type Item_Outlet_Sales data"

text \<open>Total sales by fat content, lines 241 to 248.\<close>

definition replace_fat :: "string \<Rightarrow> string" where
  "replace_fat v =
     (if v = ''LF'' then ''Low Fat''
      else if v = ''low fat'' then ''Low Fat''
      else if v = ''reg'' then ''Regular''
      else v)"

definition normalize_fat_content :: "frame \<Rightarrow> frame" where
  "normalize_fat_content f = map (\<lambda>r. r\<lparr>Item_Fat_Content := replace_fat (Item_Fat_Content r)\<rparr>) f"

definition fat_sales :: "frame \<Rightarrow> (string \<times> rat) list" where
  "fat_sales data = groupby_sum Item_Fat_Content Item_Outlet_Sales (normalize_fat_content data)"

text \<open>Total sales by city tier, line 265, and by product type, lines 282 to 284 and 302.\<close>

definition tier_sales :: "frame \<Rightarrow> (string \<times> rat) list" where
  "tier_sales data = groupby_sum Outlet_Location_Type Item_Outlet_Sales data"

definition type_sales_total :: "frame \<Rightarrow> (string \<times> rat) list" where
  "type_sales_total data =
     (let t = groupby_sum Item_Type Item_Outlet_Sales data
      in if length t > 0 then sort_values_desc t else t)"

definition type_sales :: "frame \<Rightarrow> (string \<times> rat) list" where
  "type_sales data = groupby_sum Item_Type Item_Outlet_Sales data"

text \<open>
  The section as a whole: a warning when the view is empty, otherwise the chart slots
  (the scatter plot and the two histograms take the view itself and are left out).
\<close>

record charts =
  pie_size :: "(string \<times> nat) list chart"
  bar_tier :: "(string \<times> nat) list chart"
  bar_avg :: "(string \<times> rat scalar) list chart"
  bar_fat :: "(string \<times> rat) list chart"
  bar_tier_sales :: "(string \<times> rat) list chart"
  bar_product_total :: "(string \<times> rat) list chart"
  pie_type :: "(string \<times> rat) list chart"

datatype 'a panel = Warning | Shown 'a

definition visualizations :: "frame \<Rightarrow> charts panel" where
  "visualizations data =
     (if length data = 0 then Warning
      else Shown \<lparr>pie_size = chart_of (size_counts data),
                  bar_tier = chart_of (tier_counts data),
                  bar_avg = chart_of (avg_sales_by_type data),
                  bar_fat = chart_of (fat_sales data),
                  bar_tier_sales = chart_of (tier_sales data),
                  bar_product_total = chart_of (type_sales_total data),
                  pie_type = chart_of (type_sales data)\<rparr>)"

section \<open>Advanced analytics (lines 316 to 383)\<close>

definition current_year :: int where
  "current_year = 2025"

text \<open>
  Line 324: the subtraction is carried out in the \<open>int64\<close> column, so the new column is
  a 64-bit word as well and the difference wraps around.
\<close>

record row_age = row +
  Store_Age :: "64 word"

definition store_age_df :: "frame \<Rightarrow> row_age list" where
  "store_age_df data =
     map (\<lambda>r. row.extend r
            (row_age.fields (word_of_int current_year - Outlet_Establishment_Year r))) data"

text \<open>Lines 325 and 326: the groups are keyed and ordered by the signed value of the age.\<close>

definition age_sales :: "frame \<Rightarrow> (int \<times> rat scalar) list" where
  "age_sales data =
     sort_key fst
       (groupby_mean (\<lambda>r. sint (Store_Age r)) Item_Outlet_Sales (store_age_df data))"

text \<open>The product performance matrix, lines 355 to 362: three means and a count per product type.\<close>

definition round2_scalar :: "rat scalar \<Rightarrow> rat scalar" where
  "round2_scalar s = (case s of Val x \<Rightarrow> Val (round2 x) | NaN \<Rightarrow> NaN)"

record bubble_row =
  Bubble_Item_Type :: string
  Avg_MRP :: "rat scalar"
  Avg_Visibility :: "rat scalar"
  Avg_Sales :: "rat scalar"
  Product_Count :: nat

definition bubble_data :: "frame \<Rightarrow> bubble_row list" where
  "bubble_data data =
     map (\<lambda>(k, g). \<lparr>Bubble_Item_Type = k,
                     Avg_MRP = round2_scalar (series_mean (map Item_MRP g)),
                     Avg_Visibility = round2_scalar (series_mean (map Item_Visibility g)),
                     Avg_Sales = round2_scalar (series_mean (map Item_Outlet_Sales g)),
                     Product_Count = length g\<rparr>)
       (groupby Item_Type data)"

record analytics =
  line_age :: "(int \<times> rat scalar) list"
  bubble :: "bubble_row list"

definition advanced_analytics :: "frame \<Rightarrow> analytics panel" where
  "advanced_analytics data =
     (if length data > 0
      then Shown \<lparr>line_age = age_sales data, bubble = bubble_data data\<rparr>
      else Warning)"

section \<open>Frames as objects\<close>

text \<open>
  A pandas frame is an object: two variables can name the same one, and a column
  assignment changes it for both. The store maps each reference to the rows of its
  object; references below \<open>next_ref\<close> are the allocated ones.
\<close>

record store =
  objects :: "nat \<Rightarrow> frame"
  next_ref :: nat

definition alloc :: "frame \<Rightarrow> store \<Rightarrow> nat \<times> store" where
  "alloc f s = (next_ref s, s\<lparr>objects := (objects s)(next_ref s := f), next_ref := Suc (next_ref s)\<rparr>)"

text \<open>\<open>frame.copy()\<close> (deep by default): a new object holding the same rows.\<close>

definition df_copy :: "nat \<Rightarrow> store \<Rightarrow> nat \<times> store" where
  "df_copy a s = alloc (objects s a) s"

text \<open>\<open>frame[frame[col] == v]\<close>: the selected rows, as a new object.\<close>

definition df_select_eq :: "(row \<Rightarrow> string) \<Rightarrow> string \<Rightarrow> nat \<Rightarrow> store \<Rightarrow> nat \<times> store" where
  "df_select_eq col v a s = alloc (select_eq col v (objects s a)) s"

text \<open>\<open>frame[col] = ...\<close>: the object itself is changed, whoever else names it.\<close>

definition df_assign :: "nat \<Rightarrow> (frame \<Rightarrow> frame) \<Rightarrow> store \<Rightarrow> store" where
  "df_assign a g s = s\<lparr>objects := (objects s)(a := g (objects s a))\<rparr>"

text \<open>
  Lines 74 to 85 on the store. \<open>df\<close> is the reference of the loaded dataset; the
  variable \<open>filtered_df\<close> is rebound to a new object by each active statement, and
  \<open>data\<close> is bound to whatever it names at the end.
\<close>

definition run_filters :: "selection \<Rightarrow> nat \<Rightarrow> store \<Rightarrow> nat \<times> store" where
  "run_filters sel df s =
     (let (fd0, s0) = df_copy df s;
          (fd1, s1) = (if selected_product_type sel \<noteq> ''All''
                       then df_select_eq Item_Type (selected_product_type sel) fd0 s0
                       else (fd0, s0));
          (fd2, s2) = (if selected_city_tier sel \<noteq> ''All''
                       then df_select_eq Outlet_Location_Type (selected_city_tier sel) fd1 s1
                       else (fd1, s1));
          (fd3, s3) = (if selected_store_category sel \<noteq> ''All''
                       then df_select_eq Outlet_Type (selected_store_category sel) fd2 s2
                       else (fd2, s2));
          data = fd3
      in (data, s3))"

text \<open>Lines 169 to 171 on the store: copy, fill the nulls of the copy, count its values.\<close>

definition run_size_distribution :: "nat \<Rightarrow> store \<Rightarrow> (string \<times> nat) list \<times> store" where
  "run_size_distribution data s =
     (let (df_size, s1) = df_copy data s;
          s2 = df_assign df_size fill_outlet_size s1
      in (value_counts (dropna (map Outlet_Size (objects s2 df_size))), s2))"

text \<open>Lines 241 to 248 on the store: copy, replace the synonyms in the copy, group it.\<close>

definition run_fat_content :: "nat \<Rightarrow> store \<Rightarrow> (string \<times> rat) list \<times> store" where
  "run_fat_content data s =
     (let (fat_content_df, s1) = df_copy data s;
          s2 = df_assign fat_content_df normalize_fat_content s1
      in (groupby_sum Item_Fat_Content Item_Outlet_Sales (objects s2 fat_content_df), s2))"

text \<open>The category a row is counted under in the store size distribution.\<close>

definition size_category :: "row \<Rightarrow> string" where
  "size_category r = (case Outlet_Size r of None \<Rightarrow> ''Unknown'' | Some v \<Rightarrow> v)"

section \<open>Sample data\<close>

definition dairy1 :: row where
  "dairy1 = \<lparr>Item_Identifier = ''FDA15'', Item_Weight = Some (93 / 10), Item_Fat_Content = ''LF'',
     Item_Visibility = 16 / 1000, Item_Type = ''Dairy'', Item_MRP = 250,
     Outlet_Identifier = ''OUT049'', Outlet_Establishment_Year = 1999, Outlet_Size = Some ''Medium'',
     Outlet_Location_Type = ''Tier 1'', Outlet_Type = ''Supermarket Type1'', Item_Outlet_Sales = 100\<rparr>"

definition dairy2 :: row where
  "dairy2 = \<lparr>Item_Identifier = ''FDB20'', Item_Weight = None, Item_Fat_Content = ''Regular'',
     Item_Visibility = 2 / 100, Item_Type = ''Dairy'', Item_MRP = 48,
     Outlet_Identifier = ''OUT010'', Outlet_Establishment_Year = 1998, Outlet_Size = None,
     Outlet_Location_Type = ''Tier 2'', Outlet_Type = ''Grocery Store'', Item_Outlet_Sales = 50\<rparr>"

definition snacks1 :: row where
  "snacks1 = \<lparr>Item_Identifier = ''FDC30'', Item_Weight = Some 12, Item_Fat_Content = ''reg'',
     Item_Visibility = 0, Item_Type = ''Snacks'', Item_MRP = 141,
     Outlet_Identifier = ''OUT049'', Outlet_Establishment_Year = 1999, Outlet_Size = Some ''Medium'',
     Outlet_Location_Type = ''Tier 1'', Outlet_Type = ''Supermarket Type1'', Item_Outlet_Sales = 200\<rparr>"

definition sample_df :: frame where
  "sample_df = [dairy1, dairy2, snacks1]"

definition sel_all :: selection where
  "sel_all = \<lparr>selected_product_type = ''All'', selected_city_tier = ''All'',
     selected_store_category = ''All''\<rparr>"

definition sel_dairy :: selection where
  "sel_dairy = \<lparr>selected_product_type = ''Dairy'', selected_city_tier = ''All'',
     selected_store_category = ''All''\<rparr>"


definition sel_bread :: selection where
  "sel_bread = \<lparr>selected_product_type = ''Breads'', selected_city_tier = ''All'',
     selected_store_category = ''All''\<rparr>"

definition sel_dairy_tier1 :: selection where
  "sel_dairy_tier1 = \<lparr>selected_product_type = ''Dairy'', selected_city_tier = ''Tier 1'',
     selected_store_category = ''Supermarket Type1''\<rparr>"

text \<open>A store in which the dataset is object 0 and nothing else is allocated.\<close>

definition sample_store :: store where
  "sample_store = \<lparr>objects = (\<lambda>_. [])(0 := sample_df), next_ref = 1\<rparr>"

text \<open>A row whose establishment year is the second smallest \<open>int64\<close>.\<close>

definition ancient :: row where
  "ancient = dairy1\<lparr>Outlet_Establishment_Year := - 9223372036854775807\<rparr>"


section \<open>Rounding to the nearest double\<close>











lemma nearest_double_zero: "nearest_double 0 = 0"
  by (simp add: nearest_double_def)










lemma round2_zero: "round2 0 = 0"
  by (simp add: round2_def nearest_double_zero round_half_even_def)

section \<open>The filter as one predicate\<close>

lemma filtered_df_filter: "filtered_df df sel = filter (matches sel) df"
  by (auto simp: filtered_df_def filter_product_type_def filter_city_tier_def
      filter_store_category_def select_eq_def matches_def intro: filter_cong)

lemma apply_predicate_filter:
  "\<exists>P. \<forall>f. apply_predicate p f = filter P f"
proof (cases p)
  case (Pair fld v)
  show ?thesis
  proof (cases "v = ''All''")
    case True
    then have "\<forall>f. apply_predicate p f = filter (\<lambda>_. True) f"
      using Pair by (cases fld) (simp_all add: filter_product_type_def filter_city_tier_def filter_store_category_def)
    then show ?thesis by blast
  next
    case False
    then show ?thesis using Pair
      by (cases fld) (auto simp: filter_product_type_def filter_city_tier_def filter_store_category_def select_eq_def)
  qed
qed

lemma apply_predicate_commute:
  "apply_predicate p \<circ> apply_predicate q = apply_predicate q \<circ> apply_predicate p"
proof -
  obtain P where P: "\<And>f. apply_predicate p f = filter P f"
    using apply_predicate_filter by blast
  obtain Q where Q: "\<And>f. apply_predicate q f = filter Q f"
    using apply_predicate_filter by blast
  show ?thesis
    by (rule ext) (simp add: P Q conj_commute)
qed

lemma apply_predicates_mset:
  assumes "mset S1 = mset S2"
  shows "apply_predicates S1 df = apply_predicates S2 df"
  unfolding apply_predicates_def
  using fold_multiset_equiv [of S1 apply_predicate S2] assms apply_predicate_commute
  by simp

lemma apply_predicates_selection: "apply_predicates (predicates sel) df = filtered_df df sel"
  by (simp add: apply_predicates_def predicates_def filtered_df_def)

lemma run_filters_result:
  "run_filters sel df s = (d, s') \<Longrightarrow>
     objects s' d = filtered_df (objects s df) sel \<and> next_ref s \<le> d \<and> d < next_ref s' \<and>
     (\<forall>a < next_ref s. objects s' a = objects s a)"
  by (auto simp: run_filters_def df_copy_def df_select_eq_def alloc_def filtered_df_def
      filter_product_type_def filter_city_tier_def filter_store_category_def Let_def
      split: if_splits prod.splits)

section \<open>Grouped tables and counts\<close>

lemma groupby_keys: "map fst (groupby key f) = sort (remdups (map key f))"
  by (simp add: groupby_def comp_def)

lemma groupby_sum_keys: "map fst (groupby_sum key val f) = sort (remdups (map key f))"
  by (simp add: groupby_sum_def groupby_def comp_def)

lemma groupby_mean_keys: "map fst (groupby_mean key val f) = sort (remdups (map key f))"
  by (simp add: groupby_mean_def groupby_def comp_def)

lemma groupby_sum_distinct: "distinct (map fst (groupby_sum key val f))"
  by (simp add: groupby_sum_keys)

lemma groupby_sum_entry:
  "(k, v) \<in> set (groupby_sum key val f) \<longleftrightarrow>
     k \<in> key ` set f \<and> v = sum_list (map val (filter (\<lambda>r. key r = k) f))"
  by (auto simp: groupby_sum_def groupby_def series_sum_def)

lemma groupby_mean_entry:
  "(k, m) \<in> set (groupby_mean key val f) \<longleftrightarrow>
     k \<in> key ` set f \<and>
     m = Val (sum_list (map val (filter (\<lambda>r. key r = k) f)) /
              of_nat (length (filter (\<lambda>r. key r = k) f)))"
  by (force simp: groupby_mean_def groupby_def series_mean_def filter_empty_conv image_iff)

lemma groupby_Nil: "groupby key [] = []"
  by (simp add: groupby_def)

lemma sort_values_desc_sorted: "sorted_wrt (\<lambda>p q. snd q \<le> snd p) (sort_values_desc g)"
proof -
  have "sorted (map (\<lambda>p. - snd p) (sort_values_desc g))"
    by (simp add: sort_values_desc_def)
  then show ?thesis by (simp add: sorted_map)
qed

lemma sort_values_desc_mset: "mset (sort_values_desc g) = mset g"
  by (simp add: sort_values_desc_def)

lemma value_counts_mset:
  "mset (value_counts xs) = mset (map (\<lambda>v. (v, count_list xs v)) (rev (remdups (rev xs))))"
  by (simp add: value_counts_def)

lemma value_counts_keys: "set (map fst (value_counts xs)) = set xs"
  by (force simp: value_counts_def image_iff)

lemma value_counts_distinct: "distinct (map fst (value_counts xs))"
proof -
  have "mset (map fst (value_counts xs)) = image_mset fst (mset (value_counts xs))"
    by simp
  also have "\<dots> = mset (rev (remdups (rev xs)))"
    by (simp only: value_counts_mset) (simp add: comp_def image_mset.compositionality)
  finally have "mset (map fst (value_counts xs)) = mset (rev (remdups (rev xs)))" .
  moreover have "distinct (rev (remdups (rev xs)))" by simp
  ultimately show ?thesis by (metis mset_eq_imp_distinct_iff)
qed

lemma value_counts_entry:
  "(v, n) \<in> set (value_counts xs) \<longleftrightarrow> v \<in> set xs \<and> n = count_list xs v"
  by (auto simp: value_counts_def)

lemma value_counts_total: "sum_list (map snd (value_counts xs)) = length xs"
proof -
  have "sum_list (map snd (value_counts xs)) = sum_mset (image_mset snd (mset (value_counts xs)))"
    by (metis mset_map sum_mset_sum_list)
  also have "\<dots> = sum_list (map (count_list xs) (rev (remdups (rev xs))))"
    by (simp add: value_counts_mset comp_def image_mset.compositionality flip: sum_mset_sum_list)
  also have "\<dots> = sum (count_list xs) (set xs)"
    by (subst sum_list_distinct_conv_sum_set) simp_all
  also have "\<dots> = length xs"
    by (rule sum_count_set) simp_all
  finally show ?thesis .
qed


section \<open>Ranges and accuracy of the percentage\<close>









section \<open>Copies and fat content\<close>

lemma alloc_frame:
  "alloc f s = (a, s') \<Longrightarrow>
     a = next_ref s \<and> objects s' a = f \<and> next_ref s' = Suc (next_ref s) \<and>
     (\<forall>b. b \<noteq> a \<longrightarrow> objects s' b = objects s b)"
  by (auto simp: alloc_def)

lemma run_size_distribution_result:
  assumes "run_size_distribution data s = (counts, s')"
  shows "counts = size_counts (objects s data)"
    and "\<forall>a. a \<noteq> next_ref s \<longrightarrow> objects s' a = objects s a"
    and "objects s' (next_ref s) = fill_outlet_size (objects s data)"
  using assms
  by (auto simp: run_size_distribution_def df_copy_def df_assign_def alloc_def size_counts_def Let_def)

lemma run_fat_content_result:
  assumes "run_fat_content data s = (t, s')"
  shows "t = fat_sales (objects s data)"
    and "\<forall>a. a \<noteq> next_ref s \<longrightarrow> objects s' a = objects s a"
    and "objects s' (next_ref s) = normalize_fat_content (objects s data)"
  using assms
  by (auto simp: run_fat_content_def df_copy_def df_assign_def alloc_def fat_sales_def Let_def)

lemma dropna_fill_outlet_size:
  "dropna (map Outlet_Size (fill_outlet_size f)) = map size_category f"
  by (induction f) (simp_all add: dropna_def fill_outlet_size_def fillna_def size_category_def split: option.splits)

lemma size_counts_categories: "size_counts data = value_counts (map size_category data)"
  by (simp add: size_counts_def dropna_fill_outlet_size)

lemma count_list_map: "count_list (map g xs) k = length (filter (\<lambda>r. g r = k) xs)"
  by (induction xs) simp_all

lemma replace_fat_idem: "replace_fat (replace_fat v) = replace_fat v"
  by (simp add: replace_fat_def)

lemma normalize_fat_content_idem:
  "normalize_fat_content (normalize_fat_content f) = normalize_fat_content f"
  by (simp add: normalize_fat_content_def replace_fat_idem comp_def)

lemma fat_sales_entry:
  "(k, v) \<in> set (fat_sales data) \<longleftrightarrow>
     k \<in> (\<lambda>r. replace_fat (Item_Fat_Content r)) ` set data \<and>
     v = sum_list (map Item_Outlet_Sales (filter (\<lambda>r. replace_fat (Item_Fat_Content r) = k) data))"
  by (auto simp: fat_sales_def groupby_sum_entry normalize_fat_content_def filter_map comp_def image_iff)

section \<open>Evaluation on the sample data\<close>

lemmas sample_defs = sample_df_def dairy1_def dairy2_def snacks1_def sel_all_def sel_dairy_def
  sel_bread_def sel_dairy_tier1_def sample_store_def

lemmas filter_defs = filtered_df_def filter_product_type_def filter_city_tier_def
  filter_store_category_def select_eq_def matches_def

lemma run_filters_sample:
  "fst (run_filters sel_dairy_tier1 0 sample_store) = 4 \<and>
   objects (snd (run_filters sel_dairy_tier1 0 sample_store)) 4 = [dairy1] \<and>
   objects (snd (run_filters sel_dairy_tier1 0 sample_store)) 0 = sample_df"
  by (simp add: run_filters_def df_copy_def df_select_eq_def alloc_def select_eq_def sample_defs
      eval_nat_numeral)

section \<open>The filter\<close>

text \<open>
  C1. For every dataset and every selection, the filter returns exactly the rows whose
  product type, location tier and store category equal the values of the active select
  boxes (those not set to \<open>''All''\<close>), compared as raw strings: the result is the dataset
  filtered by the conjunction, hence a subsequence of it in which every matching row
  keeps its multiplicity and no other row appears. An active value that no row carries
  gives the empty view. On the store, the view is a new object: building it leaves the
  dataset object as it was.
\<close>

theorem filter_returns_matching_rows:
  "filtered_df df sel = filter (matches sel) df \<and>
   subseq (filtered_df df sel) df \<and>
   (\<forall>r. count (mset (filtered_df df sel)) r = (if matches sel r then count (mset df) r else 0)) \<and>
   (selected_product_type sel \<noteq> ''All'' \<and> selected_product_type sel \<notin> Item_Type ` set df
      \<longrightarrow> filtered_df df sel = []) \<and>
   (selected_city_tier sel \<noteq> ''All'' \<and> selected_city_tier sel \<notin> Outlet_Location_Type ` set df
      \<longrightarrow> filtered_df df sel = []) \<and>
   (selected_store_category sel \<noteq> ''All'' \<and> selected_store_category sel \<notin> Outlet_Type ` set df
      \<longrightarrow> filtered_df df sel = []) \<and>
   (run_filters sel a s = (d, s') \<and> a < next_ref s
      \<longrightarrow> d \<noteq> a \<and> objects s' d = filtered_df (objects s a) sel \<and> objects s' a = objects s a)"
proof (intro conjI impI allI)
  show "filtered_df df sel = filter (matches sel) df"
    by (rule filtered_df_filter)
  show "subseq (filtered_df df sel) df"
    by (simp add: filtered_df_filter)
  show "count (mset (filtered_df df sel)) r = (if matches sel r then count (mset df) r else 0)" for r
    by (simp add: filtered_df_filter)
  show "filtered_df df sel = []"
    if "selected_product_type sel \<noteq> ''All'' \<and> selected_product_type sel \<notin> Item_Type ` set df"
    using that by (fastforce simp: filtered_df_filter matches_def filter_empty_conv image_iff)
  show "filtered_df df sel = []"
    if "selected_city_tier sel \<noteq> ''All'' \<and> selected_city_tier sel \<notin> Outlet_Location_Type ` set df"
    using that by (fastforce simp: filtered_df_filter matches_def filter_empty_conv image_iff)
  show "filtered_df df sel = []"
    if "selected_store_category sel \<noteq> ''All'' \<and> selected_store_category sel \<notin> Outlet_Type ` set df"
    using that by (fastforce simp: filtered_df_filter matches_def filter_empty_conv image_iff)
next
  assume h: "run_filters sel a s = (d, s') \<and> a < next_ref s"
  then show "d \<noteq> a" using run_filters_result [of sel a s d s'] by auto
  from h show "objects s' d = filtered_df (objects s a) sel"
    using run_filters_result [of sel a s d s'] by auto
  from h show "objects s' a = objects s a"
    using run_filters_result [of sel a s d s'] by auto
qed

theorem filter_returns_matching_rows_witness:
  "filtered_df sample_df sel_dairy_tier1 = [dairy1] \<and>
   filter (matches sel_dairy_tier1) sample_df = [dairy1] \<and>
   subseq [dairy1] sample_df \<and>
   count (mset [dairy1]) dairy2 = 0 \<and>
   selected_product_type sel_bread \<noteq> ''All'' \<and>
   selected_product_type sel_bread \<notin> Item_Type ` set sample_df \<and>
   filtered_df sample_df sel_bread = [] \<and>
   0 < next_ref sample_store \<and>
   fst (run_filters sel_dairy_tier1 0 sample_store) = 4 \<and>
   objects (snd (run_filters sel_dairy_tier1 0 sample_store)) 4 = [dairy1] \<and>
   objects (snd (run_filters sel_dairy_tier1 0 sample_store)) 0 = sample_df \<and>
   filtered_df (objects sample_store 0) sel_dairy_tier1 = [dairy1]"
proof -
  have v: "filtered_df sample_df sel_dairy_tier1 = [dairy1]"
    by (simp add: filter_defs sample_defs)
  have m: "\<not> matches sel_dairy_tier1 dairy2"
    by (simp add: matches_def sample_defs)
  have b: "selected_product_type sel_bread \<noteq> ''All'' \<and>
           selected_product_type sel_bread \<notin> Item_Type ` set sample_df"
    by (simp add: sample_defs)
  have a: "0 < next_ref sample_store"
    by (simp add: sample_store_def)
  note t1 = filter_returns_matching_rows [of sample_df sel_dairy_tier1 0 sample_store
      "fst (run_filters sel_dairy_tier1 0 sample_store)"
      "snd (run_filters sel_dairy_tier1 0 sample_store)"]
  note t2 = filter_returns_matching_rows [of sample_df sel_bread 0 sample_store 0 sample_store]
  have "filter (matches sel_dairy_tier1) sample_df = [dairy1]"
    using t1 v by simp
  moreover have "subseq [dairy1] sample_df"
    using t1 v by simp
  moreover have "count (mset [dairy1]) dairy2 = 0"
    using t1 v m by metis
  moreover have "filtered_df sample_df sel_bread = []"
    using t2 b by blast
  moreover have "filtered_df (objects sample_store 0) sel_dairy_tier1 = [dairy1]"
  proof -
    have "run_filters sel_dairy_tier1 0 sample_store =
            (fst (run_filters sel_dairy_tier1 0 sample_store),
             snd (run_filters sel_dairy_tier1 0 sample_store)) \<and> 0 < next_ref sample_store"
      using a by simp
    with t1 have "objects (snd (run_filters sel_dairy_tier1 0 sample_store))
                    (fst (run_filters sel_dairy_tier1 0 sample_store)) =
                  filtered_df (objects sample_store 0) sel_dairy_tier1"
      by blast
    then show ?thesis by (simp add: run_filters_sample)
  qed
  ultimately show ?thesis
    using v b a run_filters_sample by simp
qed

text \<open>
  C2. Two lists of predicates that are permutations of each other give the same view
  when their statements are run in list order, whatever the dataset; and running the
  predicates of a selection in the order product type, location tier, store category is
  what the script does.
\<close>

theorem filter_order_independent:
  assumes "mset S1 = mset S2"
  shows "apply_predicates S1 df = apply_predicates S2 df \<and>
         apply_predicates (predicates sel) df = filtered_df df sel"
proof
  show "apply_predicates S1 df = apply_predicates S2 df"
    using assms by (rule apply_predicates_mset)
  show "apply_predicates (predicates sel) df = filtered_df df sel"
    by (rule apply_predicates_selection)
qed

theorem filter_order_independent_witness:
  "mset [(StoreCategory, ''Supermarket Type1''), (ProductType, ''Dairy''), (CityTier, ''Tier 1'')] =
     mset (predicates sel_dairy_tier1) \<and>
   apply_predicates [(StoreCategory, ''Supermarket Type1''), (ProductType, ''Dairy''), (CityTier, ''Tier 1'')]
     sample_df = [dairy1] \<and>
   apply_predicates (predicates sel_dairy_tier1) sample_df = [dairy1] \<and>
   filtered_df sample_df sel_dairy_tier1 = [dairy1]"
proof -
  have p: "mset [(StoreCategory, ''Supermarket Type1''), (ProductType, ''Dairy''), (CityTier, ''Tier 1'')] =
           mset (predicates sel_dairy_tier1)"
    by (simp add: predicates_def sel_dairy_tier1_def)
  have v: "filtered_df sample_df sel_dairy_tier1 = [dairy1]"
    by (simp add: filter_defs sample_defs)
  from filter_order_independent [OF p, of sample_df sel_dairy_tier1] p v
  show ?thesis by simp
qed

text \<open>
  C8. With all three select boxes on \<open>''All''\<close>, the view holds the rows of the dataset
  in the same order, hence as many; on the store it is a distinct object with the same
  rows, and the dataset object is unchanged.
\<close>

theorem filter_all_is_identity:
  assumes "selected_product_type sel = ''All''"
    and "selected_city_tier sel = ''All''"
    and "selected_store_category sel = ''All''"
  shows "filtered_df df sel = df \<and>
         length (filtered_df df sel) = length df \<and>
         (run_filters sel a s = (d, s') \<and> a < next_ref s
            \<longrightarrow> objects s' d = objects s a \<and> d \<noteq> a \<and> objects s' a = objects s a)"
proof -
  have id: "filtered_df f sel = f" for f
    using assms by (simp add: filter_defs)
  show ?thesis
    using run_filters_result [of sel a s d s'] by (auto simp: id)
qed

lemma run_filters_all_sample:
  "fst (run_filters sel_all 0 sample_store) = 1 \<and>
   objects (snd (run_filters sel_all 0 sample_store)) 1 = sample_df \<and>
   objects (snd (run_filters sel_all 0 sample_store)) 0 = sample_df"
  by (simp add: run_filters_def df_copy_def alloc_def sample_defs)

theorem filter_all_is_identity_witness:
  "selected_product_type sel_all = ''All'' \<and> selected_city_tier sel_all = ''All'' \<and>
   selected_store_category sel_all = ''All'' \<and> 0 < next_ref sample_store \<and>
   filtered_df sample_df sel_all = sample_df \<and>
   length (filtered_df sample_df sel_all) = 3 \<and>
   fst (run_filters sel_all 0 sample_store) = 1 \<and>
   objects (snd (run_filters sel_all 0 sample_store)) (fst (run_filters sel_all 0 sample_store)) =
     objects sample_store 0"
proof -
  have h: "selected_product_type sel_all = ''All''" "selected_city_tier sel_all = ''All''"
    "selected_store_category sel_all = ''All''"
    by (simp_all add: sel_all_def)
  have a: "0 < next_ref sample_store"
    by (simp add: sample_store_def)
  have r: "run_filters sel_all 0 sample_store =
            (fst (run_filters sel_all 0 sample_store), snd (run_filters sel_all 0 sample_store)) \<and>
           0 < next_ref sample_store"
    using a by simp
  note t = filter_all_is_identity [OF h, of sample_df 0 sample_store
      "fst (run_filters sel_all 0 sample_store)" "snd (run_filters sel_all 0 sample_store)"]
  have "filtered_df sample_df sel_all = sample_df" using t by blast
  moreover have "length (filtered_df sample_df sel_all) = 3"
    using t by (simp add: sample_df_def)
  moreover have "objects (snd (run_filters sel_all 0 sample_store))
                   (fst (run_filters sel_all 0 sample_store)) = objects sample_store 0"
    using t r by blast
  ultimately show ?thesis
    using h a run_filters_all_sample by simp
qed

section \<open>Missing values\<close>













section \<open>Fat content\<close>

lemma fat_sales_sample: "fat_sales sample_df = [(''Low Fat'', 100), (''Regular'', 250)]"
  by (simp add: fat_sales_def groupby_sum_def groupby_def normalize_fat_content_def replace_fat_def
      series_sum_def sample_defs)


text \<open>
  C4. The replacement sends \<open>''LF''\<close> and \<open>''low fat''\<close> to \<open>''Low Fat''\<close> and \<open>''reg''\<close> to
  \<open>''Regular''\<close>, leaves every other value as it is, and applying it twice is applying it
  once, for a value and for a whole frame. The one table grouped by fat content,
  \<open>fat_sales\<close>, is grouped after the replacement: its keys are replaced values, each with
  the sales of all rows whose replaced value is that key, so no synonym is a key.
\<close>

theorem fat_content_normalization:
  "replace_fat ''LF'' = ''Low Fat'' \<and> replace_fat ''low fat'' = ''Low Fat'' \<and>
   replace_fat ''reg'' = ''Regular'' \<and>
   (v \<noteq> ''LF'' \<and> v \<noteq> ''low fat'' \<and> v \<noteq> ''reg'' \<longrightarrow> replace_fat v = v) \<and>
   replace_fat (replace_fat v) = replace_fat v \<and>
   normalize_fat_content (normalize_fat_content f) = normalize_fat_content f \<and>
   map Item_Fat_Content (normalize_fat_content f) = map (\<lambda>r. replace_fat (Item_Fat_Content r)) f \<and>
   fat_sales f = groupby_sum Item_Fat_Content Item_Outlet_Sales (normalize_fat_content f) \<and>
   ((k, t) \<in> set (fat_sales f) \<longleftrightarrow>
      k \<in> (\<lambda>r. replace_fat (Item_Fat_Content r)) ` set f \<and>
      t = sum_list (map Item_Outlet_Sales (filter (\<lambda>r. replace_fat (Item_Fat_Content r) = k) f))) \<and>
   ((k, t) \<in> set (fat_sales f) \<longrightarrow> k \<noteq> ''LF'' \<and> k \<noteq> ''low fat'' \<and> k \<noteq> ''reg'')"
proof (intro conjI)
  show "replace_fat ''LF'' = ''Low Fat''" "replace_fat ''low fat'' = ''Low Fat''"
    "replace_fat ''reg'' = ''Regular''"
    by (simp_all add: replace_fat_def)
  show "v \<noteq> ''LF'' \<and> v \<noteq> ''low fat'' \<and> v \<noteq> ''reg'' \<longrightarrow> replace_fat v = v"
    by (simp add: replace_fat_def)
  show "replace_fat (replace_fat v) = replace_fat v"
    by (rule replace_fat_idem)
  show "normalize_fat_content (normalize_fat_content f) = normalize_fat_content f"
    by (rule normalize_fat_content_idem)
  show "map Item_Fat_Content (normalize_fat_content f) = map (\<lambda>r. replace_fat (Item_Fat_Content r)) f"
    by (simp add: normalize_fat_content_def comp_def)
  show "fat_sales f = groupby_sum Item_Fat_Content Item_Outlet_Sales (normalize_fat_content f)"
    by (simp add: fat_sales_def)
  show "(k, t) \<in> set (fat_sales f) \<longleftrightarrow>
      k \<in> (\<lambda>r. replace_fat (Item_Fat_Content r)) ` set f \<and>
      t = sum_list (map Item_Outlet_Sales (filter (\<lambda>r. replace_fat (Item_Fat_Content r) = k) f))"
    by (rule fat_sales_entry)
  show "(k, t) \<in> set (fat_sales f) \<longrightarrow> k \<noteq> ''LF'' \<and> k \<noteq> ''low fat'' \<and> k \<noteq> ''reg''"
  proof
    assume "(k, t) \<in> set (fat_sales f)"
    then obtain r :: row where "k = replace_fat (Item_Fat_Content r)"
      by (auto simp: fat_sales_entry)
    then show "k \<noteq> ''LF'' \<and> k \<noteq> ''low fat'' \<and> k \<noteq> ''reg''"
      by (simp add: replace_fat_def)
  qed
qed

theorem fat_content_normalization_witness:
  "''Dairy fat'' \<noteq> ''LF'' \<and> ''Dairy fat'' \<noteq> ''low fat'' \<and> ''Dairy fat'' \<noteq> ''reg'' \<and>
   replace_fat ''Dairy fat'' = ''Dairy fat'' \<and>
   replace_fat (replace_fat ''LF'') = ''Low Fat'' \<and>
   fat_sales sample_df = [(''Low Fat'', 100), (''Regular'', 250)] \<and>
   (''Regular'', 250) \<in> set (fat_sales sample_df) \<and>
   ''Regular'' \<in> (\<lambda>r. replace_fat (Item_Fat_Content r)) ` set sample_df \<and>
   sum_list (map Item_Outlet_Sales
     (filter (\<lambda>r. replace_fat (Item_Fat_Content r) = ''Regular'') sample_df)) = 250"
proof -
  note t1 = fat_content_normalization [of "''Dairy fat''" sample_df "''Regular''" 250]
  note t2 = fat_content_normalization [of "''LF''" sample_df "''Regular''" 250]
  have h: "''Dairy fat'' \<noteq> ''LF'' \<and> ''Dairy fat'' \<noteq> ''low fat'' \<and> ''Dairy fat'' \<noteq> ''reg''"
    by simp
  have a: "replace_fat ''Dairy fat'' = ''Dairy fat''"
    using t1 h by blast
  have "replace_fat (replace_fat ''LF'') = replace_fat ''LF''" "replace_fat ''LF'' = ''Low Fat''"
    using t2 by blast+
  then have b: "replace_fat (replace_fat ''LF'') = ''Low Fat''"
    by simp
  have m: "(''Regular'', 250) \<in> set (fat_sales sample_df)"
    by (simp add: fat_sales_sample)
  with t1 have c: "''Regular'' \<in> (\<lambda>r. replace_fat (Item_Fat_Content r)) ` set sample_df \<and>
      250 = sum_list (map Item_Outlet_Sales
        (filter (\<lambda>r. replace_fat (Item_Fat_Content r) = ''Regular'') sample_df))"
    by blast
  show ?thesis
    using h a b m c fat_sales_sample by simp
qed



section \<open>Store age\<close>

lemma store_age_column:
  "map Store_Age (store_age_df data) = map (\<lambda>r. 2025 - Outlet_Establishment_Year r) data"
  by (simp add: store_age_df_def current_year_def row.defs row_age.defs comp_def)

lemma store_age_rest: "map row.truncate (store_age_df data) = data"
  by (induction data) (simp_all add: store_age_df_def row.defs row_age.defs)

lemma sint_2025: "sint (2025 :: 64 word) = 2025"
  by simp

lemma signed_take_bit_shift:
  "signed_take_bit n (k - 2 ^ Suc n) = signed_take_bit n (k::int)"
proof -
  have "k - 2 ^ Suc n + 2 ^ n = (k + 2 ^ n) - 2 ^ Suc n" by simp
  then have "take_bit (Suc n) (k - 2 ^ Suc n + 2 ^ n) = take_bit (Suc n) (k + 2 ^ n)"
    by (simp only: take_bit_eq_mod minus_mod_self2)
  then show ?thesis by (simp only: signed_take_bit_eq_take_bit_shift)
qed

lemma sint_store_age:
  "sint (2025 - y :: 64 word) =
     (if 2026 - 2 ^ 63 \<le> sint y then 2025 - sint y else 2025 - sint y - 2 ^ 64)"
proof -
  have r: "- (2 ^ 63) \<le> sint y" "sint y < 2 ^ 63"
    using sint_ge [of y] sint_lt [of y] by simp_all
  have s: "sint (2025 - y) = signed_take_bit 63 (2025 - sint y)"
    using sint_word_ariths(2) [of 2025 y] by (simp add: sint_2025)
  show ?thesis
  proof (cases "2026 - 2 ^ 63 \<le> sint y")
    case True
    then have "- (2 ^ 63) \<le> 2025 - sint y" "2025 - sint y < 2 ^ 63" using r by simp_all
    then have "signed_take_bit 63 (2025 - sint y) = 2025 - sint y"
      by (simp add: signed_take_bit_int_eq_self)
    with s True show ?thesis by simp
  next
    case False
    then have b: "- (2 ^ 63) \<le> 2025 - sint y - 2 ^ 64" "2025 - sint y - 2 ^ 64 < 2 ^ 63"
      using r by simp_all
    have "signed_take_bit 63 (2025 - sint y) = signed_take_bit 63 (2025 - sint y - 2 ^ Suc 63)"
      by (simp only: signed_take_bit_shift)
    also have "2025 - sint y - 2 ^ Suc 63 = 2025 - sint y - 2 ^ 64" by simp
    also have "signed_take_bit 63 (2025 - sint y - 2 ^ 64) = 2025 - sint y - 2 ^ 64"
      using b by (simp add: signed_take_bit_int_eq_self)
    finally show ?thesis using s False by simp
  qed
qed


lemma age_sales_entry:
  "(a, m) \<in> set (age_sales data) \<longleftrightarrow>
     a \<in> (\<lambda>r. sint (2025 - Outlet_Establishment_Year r)) ` set data \<and>
     m = series_mean (map Item_Outlet_Sales
           (filter (\<lambda>r. sint (2025 - Outlet_Establishment_Year r) = a) data))"
proof -
  have "(a, m) \<in> set (age_sales data) \<longleftrightarrow>
        (a, m) \<in> set (groupby_mean (\<lambda>r. sint (Store_Age r)) Item_Outlet_Sales (store_age_df data))"
    by (simp add: age_sales_def)
  also have "\<dots> \<longleftrightarrow>
     a \<in> (\<lambda>r. sint (2025 - Outlet_Establishment_Year r)) ` set data \<and>
     m = series_mean (map Item_Outlet_Sales
           (filter (\<lambda>r. sint (2025 - Outlet_Establishment_Year r) = a) data))"
    by (auto simp: groupby_mean_def groupby_def store_age_df_def current_year_def filter_map
        comp_def image_iff row.defs row_age.defs)
  finally show ?thesis .
qed

lemma age_sales_sample: "age_sales sample_df = [(26, Val 150), (27, Val 50)]"
  by (simp add: age_sales_def groupby_mean_def groupby_def store_age_df_def series_mean_def
      current_year_def row.defs row_age.defs sample_defs)

text \<open>
  C6, as stated, fails: the subtraction is carried out in the 64-bit year column and
  wraps around. For a row whose establishment year is \<open>-9223372036854775807\<close> the
  store age is \<open>-9223372036854773784\<close>, not 2025 minus the year.
\<close>

theorem store_age_counterexample:
  "sint (Outlet_Establishment_Year ancient) = - 9223372036854775807 \<and>
   map (\<lambda>a. sint (Store_Age a)) (store_age_df [ancient]) = [- 9223372036854773784] \<and>
   current_year - sint (Outlet_Establishment_Year ancient) = 9223372036854777832 \<and>
   map (\<lambda>a. sint (Store_Age a)) (store_age_df [ancient]) \<noteq>
     [current_year - sint (Outlet_Establishment_Year ancient)]"
  by (simp add: store_age_df_def current_year_def row.defs row_age.defs ancient_def dairy1_def)

text \<open>
  C6, amended. The reference year is the constant 2025, and the store age of every row
  is 2025 minus its establishment year in 64-bit arithmetic, the other columns being
  kept: for every row whose year is at least \<open>2026 - 2 ^ 63\<close> it is the integer 2025
  minus the year, and below that it is that difference less \<open>2 ^ 64\<close>. A row
  established in 1999 has store age 26. The mean sales are grouped by store age: one
  entry per distinct age, ascending, holding the mean of the sales of the rows of that
  age.
\<close>

theorem store_age_from_reference_year:
  "current_year = 2025 \<and>
   map Store_Age (store_age_df data) = map (\<lambda>r. 2025 - Outlet_Establishment_Year r) data \<and>
   map row.truncate (store_age_df data) = data \<and>
   (2026 - 2 ^ 63 \<le> sint (Outlet_Establishment_Year r) \<longrightarrow>
      map (\<lambda>a. sint (Store_Age a)) (store_age_df [r]) =
        [2025 - sint (Outlet_Establishment_Year r)]) \<and>
   (sint (Outlet_Establishment_Year r) < 2026 - 2 ^ 63 \<longrightarrow>
      map (\<lambda>a. sint (Store_Age a)) (store_age_df [r]) =
        [2025 - sint (Outlet_Establishment_Year r) - 2 ^ 64]) \<and>
   (Outlet_Establishment_Year r = 1999 \<longrightarrow>
      map (\<lambda>a. sint (Store_Age a)) (store_age_df [r]) = [26]) \<and>
   sorted (map fst (age_sales data)) \<and> distinct (map fst (age_sales data)) \<and>
   ((a, m) \<in> set (age_sales data) \<longleftrightarrow>
      a \<in> (\<lambda>r. sint (2025 - Outlet_Establishment_Year r)) ` set data \<and>
      m = series_mean (map Item_Outlet_Sales
            (filter (\<lambda>r. sint (2025 - Outlet_Establishment_Year r) = a) data)))"
proof (intro conjI)
  show "current_year = 2025" by (simp add: current_year_def)
  show "map Store_Age (store_age_df data) = map (\<lambda>r. 2025 - Outlet_Establishment_Year r) data"
    by (rule store_age_column)
  show "map row.truncate (store_age_df data) = data"
    by (rule store_age_rest)
  have one: "map (\<lambda>a. sint (Store_Age a)) (store_age_df [r]) =
             [sint (2025 - Outlet_Establishment_Year r)]"
    using store_age_column [of "[r]"] by (simp add: store_age_df_def)
  show "2026 - 2 ^ 63 \<le> sint (Outlet_Establishment_Year r) \<longrightarrow>
      map (\<lambda>a. sint (Store_Age a)) (store_age_df [r]) =
        [2025 - sint (Outlet_Establishment_Year r)]"
    by (simp only: one sint_store_age) simp
  show "sint (Outlet_Establishment_Year r) < 2026 - 2 ^ 63 \<longrightarrow>
      map (\<lambda>a. sint (Store_Age a)) (store_age_df [r]) =
        [2025 - sint (Outlet_Establishment_Year r) - 2 ^ 64]"
    by (simp only: one sint_store_age) simp
  show "Outlet_Establishment_Year r = 1999 \<longrightarrow>
      map (\<lambda>a. sint (Store_Age a)) (store_age_df [r]) = [26]"
    by (simp add: one)
  show "sorted (map fst (age_sales data))"
    by (simp add: age_sales_def)
  have "mset (map fst (age_sales data)) =
        mset (map fst (groupby_mean (\<lambda>r. sint (Store_Age r)) Item_Outlet_Sales (store_age_df data)))"
    by (simp add: age_sales_def)
  then show "distinct (map fst (age_sales data))"
    by (metis mset_eq_imp_distinct_iff groupby_mean_keys distinct_sort distinct_remdups)
  show "(a, m) \<in> set (age_sales data) \<longleftrightarrow>
      a \<in> (\<lambda>r. sint (2025 - Outlet_Establishment_Year r)) ` set data \<and>
      m = series_mean (map Item_Outlet_Sales
            (filter (\<lambda>r. sint (2025 - Outlet_Establishment_Year r) = a) data))"
    by (rule age_sales_entry)
qed

theorem store_age_from_reference_year_witness:
  "2026 - 2 ^ 63 \<le> sint (Outlet_Establishment_Year dairy1) \<and>
   Outlet_Establishment_Year dairy1 = 1999 \<and>
   map (\<lambda>a. sint (Store_Age a)) (store_age_df [dairy1]) = [26] \<and>
   sint (Outlet_Establishment_Year ancient) < 2026 - 2 ^ 63 \<and>
   map (\<lambda>a. sint (Store_Age a)) (store_age_df [ancient]) = [- 9223372036854773784] \<and>
   map Store_Age (store_age_df sample_df) = [26, 27, 26] \<and>
   age_sales sample_df = [(26, Val 150), (27, Val 50)]"
proof -
  note t = store_age_from_reference_year [of sample_df dairy1 26 "Val 150"]
  note u = store_age_from_reference_year [of sample_df ancient 26 "Val 150"]
  have y: "Outlet_Establishment_Year dairy1 = 1999"
    by (simp add: dairy1_def)
  then have b: "2026 - 2 ^ 63 \<le> sint (Outlet_Establishment_Year dairy1)"
    by simp
  from t y have a: "map (\<lambda>a. sint (Store_Age a)) (store_age_df [dairy1]) = [26]"
    by blast
  have o: "sint (Outlet_Establishment_Year ancient) = - 9223372036854775807"
    by (simp add: ancient_def)
  then have l: "sint (Outlet_Establishment_Year ancient) < 2026 - 2 ^ 63"
    by simp
  with u have "map (\<lambda>a. sint (Store_Age a)) (store_age_df [ancient]) =
                 [2025 - sint (Outlet_Establishment_Year ancient) - 2 ^ 64]"
    by blast
  then have w: "map (\<lambda>a. sint (Store_Age a)) (store_age_df [ancient]) = [- 9223372036854773784]"
    by (simp only: o) simp
  from t have "map Store_Age (store_age_df sample_df) =
               map (\<lambda>r. 2025 - Outlet_Establishment_Year r) sample_df"
    by blast
  then have s: "map Store_Age (store_age_df sample_df) = [26, 27, 26]"
    by (simp add: sample_defs)
  from b y a l w s age_sales_sample show ?thesis by blast
qed

section \<open>Total sales by product type\<close>

lemma type_sales_total_alt:
  "type_sales_total data = sort_values_desc (groupby_sum Item_Type Item_Outlet_Sales data)"
  by (cases "groupby_sum Item_Type Item_Outlet_Sales data")
     (simp_all add: type_sales_total_def sort_values_desc_def Let_def)

lemma type_sales_total_sample: "type_sales_total sample_df = [(''Snacks'', 200), (''Dairy'', 150)]"
  by (simp add: type_sales_total_def sort_values_desc_def groupby_sum_def groupby_def
      series_sum_def sample_defs)

text \<open>
  C7. The table of total sales by product type is in descending order of the total
  when it reaches its chart: it holds the entries of the group sum, one per product
  type with the sum of the sales of its rows, reordered so that no entry has a larger
  total than an earlier one; on a non-empty view that table is what the bar chart gets.
\<close>

theorem type_sales_total_descending:
  "sorted_wrt (\<lambda>p q. snd q \<le> snd p) (type_sales_total data) \<and>
   mset (type_sales_total data) = mset (groupby_sum Item_Type Item_Outlet_Sales data) \<and>
   ((k, v) \<in> set (type_sales_total data) \<longleftrightarrow>
      k \<in> Item_Type ` set data \<and>
      v = sum_list (map Item_Outlet_Sales (filter (\<lambda>r. Item_Type r = k) data))) \<and>
   (data \<noteq> [] \<longrightarrow>
      (\<exists>c. visualizations data = Shown c \<and> bar_product_total c = Chart (type_sales_total data)))"
proof (intro conjI)
  show "sorted_wrt (\<lambda>p q. snd q \<le> snd p) (type_sales_total data)"
    by (simp only: type_sales_total_alt sort_values_desc_sorted)
  show m: "mset (type_sales_total data) = mset (groupby_sum Item_Type Item_Outlet_Sales data)"
    by (simp only: type_sales_total_alt sort_values_desc_mset)
  have "set (type_sales_total data) = set (groupby_sum Item_Type Item_Outlet_Sales data)"
    using m by (rule mset_eq_setD)
  then show "(k, v) \<in> set (type_sales_total data) \<longleftrightarrow>
      k \<in> Item_Type ` set data \<and>
      v = sum_list (map Item_Outlet_Sales (filter (\<lambda>r. Item_Type r = k) data))"
    by (simp add: groupby_sum_entry)
  show "data \<noteq> [] \<longrightarrow>
      (\<exists>c. visualizations data = Shown c \<and> bar_product_total c = Chart (type_sales_total data))"
  proof
    assume ne: "data \<noteq> []"
    then obtain r where "r \<in> set data" by (cases data) auto
    then have "Item_Type r \<in> Item_Type ` set data" by simp
    then have "(Item_Type r, sum_list (map Item_Outlet_Sales (filter (\<lambda>r'. Item_Type r' = Item_Type r) data)))
                 \<in> set (groupby_sum Item_Type Item_Outlet_Sales data)"
      by (simp only: groupby_sum_entry simp_thms)
    then have "set (type_sales_total data) \<noteq> {}"
      using \<open>set (type_sales_total data) = set (groupby_sum Item_Type Item_Outlet_Sales data)\<close>
      by (metis empty_iff)
    then have "length (type_sales_total data) > 0" by auto
    then show "\<exists>c. visualizations data = Shown c \<and> bar_product_total c = Chart (type_sales_total data)"
      using ne by (simp add: visualizations_def chart_of_def)
  qed
qed

theorem type_sales_total_descending_witness:
  "sample_df \<noteq> [] \<and>
   type_sales_total sample_df = [(''Snacks'', 200), (''Dairy'', 150)] \<and>
   groupby_sum Item_Type Item_Outlet_Sales sample_df = [(''Dairy'', 150), (''Snacks'', 200)] \<and>
   sorted_wrt (\<lambda>p q. snd q \<le> snd p) [(''Snacks'', 200 :: rat), (''Dairy'', 150)] \<and>
   (\<exists>c. visualizations sample_df = Shown c \<and>
        bar_product_total c = Chart [(''Snacks'', 200), (''Dairy'', 150)])"
proof -
  note t = type_sales_total_descending [of sample_df "''Dairy''" 150]
  have ne: "sample_df \<noteq> []" by (simp add: sample_df_def)
  have g: "groupby_sum Item_Type Item_Outlet_Sales sample_df = [(''Dairy'', 150), (''Snacks'', 200)]"
    by (simp add: groupby_sum_def groupby_def series_sum_def sample_defs)
  from t have "sorted_wrt (\<lambda>p q. snd q \<le> snd p) (type_sales_total sample_df)"
    by blast
  then have s: "sorted_wrt (\<lambda>p q. snd q \<le> snd p) [(''Snacks'', 200 :: rat), (''Dairy'', 150)]"
    by (simp only: type_sales_total_sample)
  from t ne have "\<exists>c. visualizations sample_df = Shown c \<and>
        bar_product_total c = Chart (type_sales_total sample_df)"
    by blast
  then have "\<exists>c. visualizations sample_df = Shown c \<and>
        bar_product_total c = Chart [(''Snacks'', 200), (''Dairy'', 150)]"
    by (simp only: type_sales_total_sample)
  with ne g s type_sales_total_sample show ?thesis by blast
qed

section \<open>The empty view\<close>

lemma metric_never_NaN:
  "highest_mrp v \<noteq> Metric NaN \<and> avg_store_sales v \<noteq> Metric NaN \<and> avg_mrp v \<noteq> Metric NaN \<and>
   establishment_years v \<noteq> Metric (NaN, hi) \<and> establishment_years v \<noteq> Metric (lo, NaN)"
  by (cases v) (simp_all add: highest_mrp_def avg_store_sales_def avg_mrp_def establishment_years_def
      series_mean_def)

text \<open>
  C5. When the selection leaves no row, nothing fails and every result is defined: the
  row count and the distinct count are 0, the sum of any column is 0, every grouped
  table (sums, means, counts, for any key and value column, and each table of the
  dashboard) is empty, and the missing-values table holds zeros. \<open>max\<close>, \<open>min\<close> and
  \<open>mean\<close> are the sentinel \<open>NaN\<close>, and the script checks emptiness before it asks for
  them: on the empty view the tiles read "No data" and both chart sections give their
  warning, and on no view at all does a tile show \<open>NaN\<close>.
\<close>

theorem empty_view_is_valid_state:
  assumes "data = filtered_df df sel" and "data = []"
  shows "total_observations data = 0 \<and> product_types_count data = 0 \<and>
         series_sum (map val data) = 0 \<and>
         groupby_sum key val data = [] \<and> groupby_mean key val data = [] \<and>
         value_counts (map key data) = [] \<and>
         size_counts data = [] \<and> tier_counts data = [] \<and> avg_sales_by_type data = [] \<and>
         fat_sales data = [] \<and> tier_sales data = [] \<and> type_sales_total data = [] \<and>
         type_sales data = [] \<and> age_sales data = [] \<and> bubble_data data = [] \<and>
         series_max (map val data) = NaN \<and> series_min (map val data) = NaN \<and>
         series_mean (map val data) = NaN \<and>
         highest_mrp data = No_data \<and> establishment_years data = No_data \<and>
         avg_store_sales data = No_data \<and> total_store_sales data = No_data \<and>
         avg_mrp data = No_data \<and>
         map Missing_Values (missing_data data) = [0, 0] \<and>
         map Percentage (missing_data data) = [0, 0] \<and>
         visualizations data = Warning \<and> advanced_analytics data = Warning \<and>
         highest_mrp v \<noteq> Metric NaN \<and> avg_store_sales v \<noteq> Metric NaN \<and>
         avg_mrp v \<noteq> Metric NaN \<and>
         establishment_years v \<noteq> Metric (NaN, hi) \<and> establishment_years v \<noteq> Metric (lo, NaN)"
proof -
  have e: "data = []" by fact
  have 1: "total_observations data = 0 \<and> product_types_count data = 0 \<and>
           series_sum (map val data) = 0"
    by (simp add: e total_observations_def product_types_count_def nunique_def series_sum_def)
  have 2: "groupby_sum key val data = [] \<and> groupby_mean key val data = [] \<and>
           value_counts (map key data) = []"
    by (simp add: e groupby_sum_def groupby_mean_def groupby_def value_counts_def)
  have 3: "size_counts data = [] \<and> tier_counts data = [] \<and> avg_sales_by_type data = [] \<and>
           fat_sales data = [] \<and> tier_sales data = []"
    by (simp add: e size_counts_def tier_counts_def avg_sales_by_type_def fat_sales_def
        tier_sales_def value_counts_def groupby_sum_def groupby_mean_def groupby_def
        fill_outlet_size_def dropna_def normalize_fat_content_def)
  have 4: "type_sales_total data = [] \<and> type_sales data = [] \<and> age_sales data = [] \<and>
           bubble_data data = []"
    by (simp add: e type_sales_total_def type_sales_def age_sales_def bubble_data_def
        groupby_sum_def groupby_mean_def groupby_def store_age_df_def)
  have 5: "series_max (map val data) = NaN \<and> series_min (map val data) = NaN \<and>
           series_mean (map val data) = NaN"
    by (simp add: e series_mean_def)
  have 6: "highest_mrp data = No_data \<and> establishment_years data = No_data \<and>
           avg_store_sales data = No_data \<and> total_store_sales data = No_data \<and>
           avg_mrp data = No_data"
    by (simp add: e highest_mrp_def establishment_years_def avg_store_sales_def
        total_store_sales_def avg_mrp_def)
  have 7: "map Missing_Values (missing_data data) = [0, 0] \<and>
           map Percentage (missing_data data) = [0, 0]"
    by (simp add: e missing_data_def missing_row_def missing_count_def isnull_sum_def
        missing_percentage_def round2_zero)
  have 8: "visualizations data = Warning \<and> advanced_analytics data = Warning"
    by (simp add: e visualizations_def advanced_analytics_def)
  from 1 2 3 4 5 6 7 8 metric_never_NaN [of v hi lo] show ?thesis
    by blast
qed

theorem empty_view_is_valid_state_witness:
  "[] = filtered_df sample_df sel_bread \<and>
   total_observations (filtered_df sample_df sel_bread) = 0 \<and>
   series_sum (map Item_Outlet_Sales (filtered_df sample_df sel_bread)) = 0 \<and>
   groupby_sum Item_Type Item_Outlet_Sales (filtered_df sample_df sel_bread) = [] \<and>
   series_max (map Item_Outlet_Sales (filtered_df sample_df sel_bread)) = NaN \<and>
   highest_mrp (filtered_df sample_df sel_bread) = No_data \<and>
   visualizations (filtered_df sample_df sel_bread) = Warning \<and>
   highest_mrp sample_df = Metric (Val 250)"
proof -
  have h: "[] = filtered_df sample_df sel_bread"
    by (simp add: filter_defs sample_defs)
  have m: "highest_mrp sample_df = Metric (Val 250)"
    by (simp add: highest_mrp_def sample_defs)
  note t = empty_view_is_valid_state [OF h refl, of Item_Outlet_Sales Item_Type sample_df NaN NaN]
  have "total_observations [] = 0 \<and> series_sum (map Item_Outlet_Sales ([] :: frame)) = 0 \<and>
        groupby_sum Item_Type Item_Outlet_Sales ([] :: frame) = [] \<and>
        series_max (map Item_Outlet_Sales ([] :: frame)) = NaN \<and> highest_mrp [] = No_data \<and>
        visualizations [] = Warning"
    using t by blast
  then show ?thesis
    using h m by (simp only: h [symmetric] simp_thms)
qed

section \<open>Local copies\<close>

lemma missing_count_filter: "missing_count col f = length (filter (\<lambda>r. col r = None) f)"
  by (simp add: missing_count_def isnull_sum_def filter_map comp_def)

lemma run_size_distribution_sample:
  "fst (run_size_distribution 0 sample_store) = [(''Medium'', 2), (''Unknown'', 1)] \<and>
   map Outlet_Size (objects (snd (run_size_distribution 0 sample_store)) 0) =
     [Some ''Medium'', None, Some ''Medium''] \<and>
   map Outlet_Size (objects (snd (run_size_distribution 0 sample_store)) 1) =
     [Some ''Medium'', Some ''Unknown'', Some ''Medium'']"
  by (simp add: run_size_distribution_def df_copy_def df_assign_def alloc_def fill_outlet_size_def
      fillna_def dropna_def value_counts_def sample_defs Let_def)

lemma run_fat_content_sample:
  "fst (run_fat_content 0 sample_store) = [(''Low Fat'', 100), (''Regular'', 250)] \<and>
   map Item_Fat_Content (objects (snd (run_fat_content 0 sample_store)) 0) =
     [''LF'', ''Regular'', ''reg''] \<and>
   map Item_Fat_Content (objects (snd (run_fat_content 0 sample_store)) 1) =
     [''Low Fat'', ''Regular'', ''Regular'']"
  by (simp add: run_fat_content_def df_copy_def df_assign_def alloc_def normalize_fat_content_def
      replace_fat_def groupby_sum_def groupby_def series_sum_def sample_defs Let_def)

text \<open>
  C9. In the store size distribution a row with a null outlet size is counted under
  \<open>''Unknown''\<close> and any other row under its own size, so every row of the view falls
  under exactly one category: the table has one entry per category, holding the number
  of rows of that category, and its counts add up to the row count of the view. The
  nulls are filled in a new object; every object that existed before, the view among
  them, keeps its rows, so the missing-values analysis of the view still counts the
  rows whose outlet size is null, before and after.
\<close>

theorem unknown_size_only_in_distribution:
  assumes "run_size_distribution data s = (counts, s')" and "data < next_ref s"
  shows "counts = value_counts (map size_category (objects s data)) \<and>
         (Outlet_Size r = None \<longrightarrow> size_category r = ''Unknown'') \<and>
         (Outlet_Size r = Some c \<longrightarrow> size_category r = c) \<and>
         distinct (map fst counts) \<and>
         ((k, n) \<in> set counts \<longleftrightarrow>
            k \<in> size_category ` set (objects s data) \<and>
            n = length (filter (\<lambda>r. size_category r = k) (objects s data))) \<and>
         sum_list (map snd counts) = length (objects s data) \<and>
         objects s' data = objects s data \<and>
         (\<forall>a < next_ref s. objects s' a = objects s a) \<and>
         objects s' (next_ref s) = fill_outlet_size (objects s data) \<and>
         missing_count Outlet_Size (objects s' data) =
           length (filter (\<lambda>r. Outlet_Size r = None) (objects s data)) \<and>
         missing_data (objects s' data) = missing_data (objects s data)"
proof -
  note r = run_size_distribution_result [OF assms(1)]
  have c: "counts = value_counts (map size_category (objects s data))"
    using r(1) by (simp add: size_counts_categories)
  have frame: "\<forall>a < next_ref s. objects s' a = objects s a"
    using r(2) by simp
  then have same: "objects s' data = objects s data"
    using assms(2) by simp
  have 1: "(Outlet_Size r = None \<longrightarrow> size_category r = ''Unknown'') \<and>
           (Outlet_Size r = Some c \<longrightarrow> size_category r = c)"
    by (simp add: size_category_def)
  have 2: "distinct (map fst counts)"
    by (simp only: c value_counts_distinct)
  have 3: "(k, n) \<in> set counts \<longleftrightarrow>
            k \<in> size_category ` set (objects s data) \<and>
            n = length (filter (\<lambda>r. size_category r = k) (objects s data))"
    by (simp add: c value_counts_entry count_list_map)
  have 4: "sum_list (map snd counts) = length (objects s data)"
    by (simp add: c value_counts_total)
  have 5: "missing_count Outlet_Size (objects s' data) =
           length (filter (\<lambda>r. Outlet_Size r = None) (objects s data))"
    by (simp add: same missing_count_filter)
  have 6: "missing_data (objects s' data) = missing_data (objects s data)"
    by (simp add: same)
  from c 1 2 3 4 5 6 same frame r(3) show ?thesis by blast
qed

theorem unknown_size_only_in_distribution_witness:
  "0 < next_ref sample_store \<and>
   fst (run_size_distribution 0 sample_store) = [(''Medium'', 2), (''Unknown'', 1)] \<and>
   sum_list (map snd (fst (run_size_distribution 0 sample_store))) = length (objects sample_store 0) \<and>
   Outlet_Size dairy2 = None \<and> size_category dairy2 = ''Unknown'' \<and>
   objects (snd (run_size_distribution 0 sample_store)) 0 = sample_df \<and>
   missing_count Outlet_Size (objects (snd (run_size_distribution 0 sample_store)) 0) = 1 \<and>
   map Outlet_Size (objects (snd (run_size_distribution 0 sample_store)) 1) =
     [Some ''Medium'', Some ''Unknown'', Some ''Medium'']"
proof -
  have a: "0 < next_ref sample_store"
    by (simp add: sample_store_def)
  have p: "run_size_distribution 0 sample_store =
             (fst (run_size_distribution 0 sample_store), snd (run_size_distribution 0 sample_store))"
    by simp
  note t = unknown_size_only_in_distribution [OF p a, of dairy2 "''x''" "''Unknown''" 1]
  have n: "Outlet_Size dairy2 = None"
    by (simp add: dairy2_def)
  with t have u: "size_category dairy2 = ''Unknown''"
    by blast
  from t have s: "sum_list (map snd (fst (run_size_distribution 0 sample_store))) =
                  length (objects sample_store 0)"
    by blast
  from t have "objects (snd (run_size_distribution 0 sample_store)) 0 = objects sample_store 0"
    by blast
  then have o: "objects (snd (run_size_distribution 0 sample_store)) 0 = sample_df"
    by (simp add: sample_store_def)
  from t have "missing_count Outlet_Size (objects (snd (run_size_distribution 0 sample_store)) 0) =
               length (filter (\<lambda>r. Outlet_Size r = None) (objects sample_store 0))"
    by blast
  then have m: "missing_count Outlet_Size (objects (snd (run_size_distribution 0 sample_store)) 0) = 1"
    by (simp add: sample_defs)
  from a n u s o m run_size_distribution_sample show ?thesis by blast
qed

text \<open>
  C10. The synonyms are replaced in a new object. After the fat-content table has been
  computed, the view and every other object that existed before hold the rows they held,
  the fat-content column of the view is the raw one, and whatever is computed from the
  view afterwards is what it would have been before; the table itself is the group sum
  over the normalized copy.
\<close>

theorem fat_normalization_on_copy:
  assumes "run_fat_content data s = (t, s')" and "data < next_ref s"
  shows "t = fat_sales (objects s data) \<and>
         objects s' data = objects s data \<and>
         map Item_Fat_Content (objects s' data) = map Item_Fat_Content (objects s data) \<and>
         (\<forall>a < next_ref s. objects s' a = objects s a) \<and>
         next_ref s \<noteq> data \<and>
         objects s' (next_ref s) = normalize_fat_content (objects s data) \<and>
         agg (objects s' data) = agg (objects s data)"
proof -
  note r = run_fat_content_result [OF assms(1)]
  have frame: "\<forall>a < next_ref s. objects s' a = objects s a"
    using r(2) by simp
  then have same: "objects s' data = objects s data"
    using assms(2) by simp
  from r(1) r(3) frame same assms(2) show ?thesis by simp
qed

theorem fat_normalization_on_copy_witness:
  "0 < next_ref sample_store \<and>
   fst (run_fat_content 0 sample_store) = [(''Low Fat'', 100), (''Regular'', 250)] \<and>
   objects (snd (run_fat_content 0 sample_store)) 0 = sample_df \<and>
   map Item_Fat_Content (objects (snd (run_fat_content 0 sample_store)) 0) =
     [''LF'', ''Regular'', ''reg''] \<and>
   map Item_Fat_Content (objects (snd (run_fat_content 0 sample_store)) 1) =
     [''Low Fat'', ''Regular'', ''Regular''] \<and>
   groupby_sum Item_Fat_Content Item_Outlet_Sales (objects (snd (run_fat_content 0 sample_store)) 0) =
     groupby_sum Item_Fat_Content Item_Outlet_Sales sample_df"
proof -
  have a: "0 < next_ref sample_store"
    by (simp add: sample_store_def)
  have p: "run_fat_content 0 sample_store =
             (fst (run_fat_content 0 sample_store), snd (run_fat_content 0 sample_store))"
    by simp
  note t = fat_normalization_on_copy [OF p a, of "groupby_sum Item_Fat_Content Item_Outlet_Sales"]
  have z: "objects sample_store 0 = sample_df"
    by (simp add: sample_store_def)
  from t have o: "objects (snd (run_fat_content 0 sample_store)) 0 = sample_df"
    by (simp only: z)
  from t have g: "groupby_sum Item_Fat_Content Item_Outlet_Sales
                    (objects (snd (run_fat_content 0 sample_store)) 0) =
                  groupby_sum Item_Fat_Content Item_Outlet_Sales sample_df"
    by (simp only: z)
  from a o g run_fat_content_sample show ?thesis by blast
qed

end
